theory Spec2Isabelle
  imports Main "HOL-Library.Sublist"
begin

section \<open>Package apitypes: API errors\<close>

text \<open>
  Go strings are byte sequences; they are modelled as \<open>string\<close> (lists of 8-bit
  characters).  The functions of package \<open>strings\<close> that the code calls are modelled
  on their documented behaviour.  \<open>Contains\<close>, \<open>Join\<close> and \<open>Split\<close> with a
  non-empty separator work on the bytes.  Where a function works on the Unicode
  characters that the bytes encode, the model gives what it does on strings of ASCII
  characters; what it does on a string with a byte outside ASCII depends on the UTF-8
  decoding and on the Unicode tables, and is a field of the parameter \<open>u\<close>.
\<close>

record strings_unicode =
  TitleUnicode :: "string \<Rightarrow> string"
  explodeUnicode :: "string \<Rightarrow> string list"

definition isASCII :: "string \<Rightarrow> bool" where
  "isASCII s = list_all (\<lambda>c. (of_char c :: nat) \<le> 0x7F) s"

text \<open>\<open>strings.Contains(s, substr)\<close>: does \<open>substr\<close> occur within \<open>s\<close>.\<close>

fun Contains :: "string \<Rightarrow> string \<Rightarrow> bool" where
  "Contains [] substr = (substr = [])"
| "Contains (c # cs) substr = (prefix substr (c # cs) \<or> Contains cs substr)"

text \<open>
  \<open>strings.Split(s, sep)\<close>: for a non-empty \<open>sep\<close>, the substrings of \<open>s\<close> between
  the occurrences of \<open>sep\<close>, scanned from the left, where \<open>Split_loop sep cur s\<close> has
  collected \<open>cur\<close> for the piece being read; for an empty \<open>sep\<close>, \<open>s\<close> split after
  each character.
\<close>

function Split_loop :: "string \<Rightarrow> string \<Rightarrow> string \<Rightarrow> string list" where
  "Split_loop sep cur s =
     (if s = [] then [cur]
      else if sep \<noteq> [] \<and> prefix sep s then cur # Split_loop sep [] (drop (length sep) s)
      else Split_loop sep (cur @ [hd s]) (tl s))"
  by pat_completeness auto
termination
  by (relation "measure (\<lambda>(sep, cur, s). length s)") auto

declare Split_loop.simps [simp del]

definition Split :: "strings_unicode \<Rightarrow> string \<Rightarrow> string \<Rightarrow> string list" where
  "Split u s sep =
     (if sep = [] then (if isASCII s then map (\<lambda>c. [c]) s else explodeUnicode u s)
      else Split_loop sep [] s)"

text \<open>\<open>strings.Join(elems, sep)\<close>.\<close>

fun Join :: "string list \<Rightarrow> string \<Rightarrow> string" where
  "Join [] sep = []"
| "Join [x] sep = x"
| "Join (x # y # ys) sep = x @ sep @ Join (y # ys) sep"

text \<open>
  \<open>strings.Title(s)\<close> maps the first letter of every word of \<open>s\<close> to its title case.
  On a string of ASCII characters a word starts after a separator, every character
  that is not an ASCII letter, digit or underscore is a separator, the scan starts as
  if a space had been read, and the title case of a lower-case letter is the upper-case
  letter: this is \<open>TitleMap_ASCII\<close>.
\<close>

definition isSeparator_ASCII :: "char \<Rightarrow> bool" where
  "isSeparator_ASCII r =
     (let n = of_char r :: nat in
      if 48 \<le> n \<and> n \<le> 57 then False
      else if 97 \<le> n \<and> n \<le> 122 then False
      else if 65 \<le> n \<and> n \<le> 90 then False
      else if n = 95 then False
      else True)"

definition ToTitle_ASCII :: "char \<Rightarrow> char" where
  "ToTitle_ASCII r =
     (let n = of_char r :: nat in if 97 \<le> n \<and> n \<le> 122 then char_of (n - 32) else r)"

fun TitleMap_ASCII :: "char \<Rightarrow> string \<Rightarrow> string" where
  "TitleMap_ASCII prev [] = []"
| "TitleMap_ASCII prev (r # rs) =
     (if isSeparator_ASCII prev then ToTitle_ASCII r # TitleMap_ASCII r rs
      else r # TitleMap_ASCII r rs)"

definition Title :: "strings_unicode \<Rightarrow> string \<Rightarrow> string" where
  "Title u s = (if isASCII s then TitleMap_ASCII (CHR '' '') s else TitleUnicode u s)"

text \<open>The error types of the daemon and the registry.\<close>

definition BadRequestError :: string where "BadRequestError = ''bad_request''"
definition UnauthorizedError :: string where "UnauthorizedError = ''unauthorized''"
definition NotFoundError :: string where "NotFoundError = ''not_found''"
definition InternalServerError :: string where "InternalServerError = ''internal_server''"
definition NotImplementedError :: string where "NotImplementedError = ''not_implemented''"

text \<open>
  \<open>type Error struct\<close>: the status code and the two fields tagged \<open>json:"type"\<close> and
  \<open>json:"error"\<close>.
\<close>

record Error =
  StatusCode :: int
  Type :: string
  Err :: "string list"

text \<open>
  The fields of \<open>Error\<close> as \<open>encoding/json\<close> sees them, in the order of the
  declaration: the key of a field is its \<open>json\<close> tag, and the name of the field where
  it has no tag, as \<open>StatusCode\<close> has none.  A key of a JSON object is decoded into
  the field whose key it equals, and failing that into the first field whose key it
  matches without regard to case; a key that matches no field is skipped.  The
  case-insensitive comparison of the library is the parameter \<open>equalFold\<close>.
\<close>

datatype gotype = GoInt | GoString | GoStringSlice

definition Error_fields :: "(string \<times> gotype) list" where
  "Error_fields = [(''StatusCode'', GoInt), (''type'', GoString), (''error'', GoStringSlice)]"

definition fieldOfKey :: "(string \<Rightarrow> string \<Rightarrow> bool) \<Rightarrow> string \<Rightarrow> (string \<times> gotype) option" where
  "fieldOfKey equalFold key =
     (case find (\<lambda>f. fst f = key) Error_fields of
        Some f \<Rightarrow> Some f
      | None \<Rightarrow> find (\<lambda>f. equalFold (fst f) key) Error_fields)"

text \<open>
  A non-nil value of Go's \<open>error\<close> interface is either a pointer to an \<open>Error\<close>
  struct (the type assertion \<open>err.(*Error)\<close> succeeds), where the pointer itself may be
  nil (\<open>APIError None\<close>), or a value of another dynamic type: the result of
  \<open>errors.New\<close>, an exit error made by \<open>errs.NewExitError\<close> or by
  \<open>errs.NewErrorExitError\<close> (which keeps the error it wraps), or a value of any other
  type \<open>'x\<close>.  The nil interface is \<open>None\<close>.
\<close>

datatype 'x goerror =
    APIError "Error option"
  | ErrorString string
  | ExitError string
  | ErrorExitError string "'x goerror"
  | OtherError 'x

text \<open>A call either panics (a nil pointer is dereferenced) or returns.\<close>

datatype 'a outcome = Panic | Return 'a

text \<open>
  \<open>func (e *Error) Error() string\<close>; \<open>u\<close> is the Unicode part of package
  \<open>strings\<close>.
\<close>

definition Error_Error :: "strings_unicode \<Rightarrow> Error \<Rightarrow> string" where
  "Error_Error u e =
     (let segments = Split u (Type e) ''_'';
          errType = Join segments '' ''
      in Title u errType @ '': '' @ Join (Err e) '' '')"

definition NewUnverifiedError :: Error where
  "NewUnverifiedError =
     \<lparr>StatusCode = 401,
      Type = UnauthorizedError,
      Err = [''Your account has not yet been verified.'' @ [CHR 0x0A, CHR 0x0A] @
             ''Please check your email for your verification code and follow the enclosed instructions.'' @ [CHR 0x0A] @
             ''Once you have verified your account you may retry this operation.'']\<rparr>"

text \<open>The \<open>for _, m := range apiErr.Err\<close> loop of FormatError: does it return inside.\<close>

fun FormatError_range :: "string list \<Rightarrow> bool" where
  "FormatError_range [] = False"
| "FormatError_range (m # ms) =
     (if Contains m ''wrong identity state: unverified'' then True else FormatError_range ms)"

text \<open>
  \<open>FormatError\<close> and \<open>IsNotFoundError\<close> read \<open>apiErr.Type\<close> once the type assertion
  has succeeded: with a nil pointer in the interface that read panics.
\<close>

definition FormatError :: "'x goerror option \<Rightarrow> 'x goerror option outcome" where
  "FormatError err =
     (case err of
        None \<Rightarrow> Return None
      | Some (APIError None) \<Rightarrow> Panic
      | Some (APIError (Some apiErr)) \<Rightarrow>
          (if Type apiErr = UnauthorizedError then
             (if FormatError_range (Err apiErr) then Return (Some (APIError (Some NewUnverifiedError)))
              else Return (Some (APIError (Some \<lparr>StatusCode = 401,
                                   Type = UnauthorizedError,
                                   Err = [''You are unauthorized to perform this action.'']\<rparr>))))
           else Return err)
      | Some other \<Rightarrow> Return err)"

definition IsNotFoundError :: "'x goerror option \<Rightarrow> bool outcome" where
  "IsNotFoundError err =
     (case err of
        None \<Rightarrow> Return False
      | Some (APIError None) \<Rightarrow> Panic
      | Some (APIError (Some apiErr)) \<Rightarrow> Return (Type apiErr = NotFoundError)
      | Some other \<Rightarrow> Return False)"

section \<open>Package apitypes: login credentials\<close>

definition MachineSession :: string where "MachineSession = ''machine''"
definition UserSession :: string where "UserSession = ''user''"
definition NotLoggedIn :: string where "NotLoggedIn = ''no_session''"

record UserLogin =
  Email :: string
  Password :: string

definition UserLogin_Type :: "UserLogin \<Rightarrow> string" where
  "UserLogin_Type u = UserSession"

definition UserLogin_Valid :: "UserLogin \<Rightarrow> bool" where
  "UserLogin_Valid u = (Email u \<noteq> [] \<and> Password u \<noteq> [])"

text \<open>\<open>[]byte(u.Password)\<close>: the bytes of the string, which the model's strings are.\<close>

definition UserLogin_Passphrase :: "UserLogin \<Rightarrow> char list" where
  "UserLogin_Passphrase u = Password u"

definition UserLogin_Identifier :: "UserLogin \<Rightarrow> string" where
  "UserLogin_Identifier u = Email u"

text \<open>
  \<open>MachineLogin\<close> holds two pointers: to an \<open>identity.ID\<close> (type \<open>'i\<close>) and to a
  \<open>base64.Value\<close>, a byte slice.  The \<open>String\<close> methods of the two types belong to
  packages \<open>identity\<close> and \<open>base64\<close>; they are the parameters \<open>idString\<close> and
  \<open>valueString\<close>.
\<close>

record 'i MachineLogin =
  TokenID :: "'i option"
  Secret :: "char list option"

definition MachineLogin_Type :: "'i MachineLogin \<Rightarrow> string" where
  "MachineLogin_Type m = MachineSession"

definition MachineLogin_Valid :: "(char list \<Rightarrow> string) \<Rightarrow> 'i MachineLogin \<Rightarrow> bool" where
  "MachineLogin_Valid valueString m =
     (TokenID m \<noteq> None \<and>
      (case Secret m of None \<Rightarrow> False | Some secret \<Rightarrow> valueString secret \<noteq> []))"

definition MachineLogin_Passphrase :: "'i MachineLogin \<Rightarrow> char list outcome" where
  "MachineLogin_Passphrase m = (case Secret m of None \<Rightarrow> Panic | Some secret \<Rightarrow> Return secret)"

definition MachineLogin_Identifier :: "('i \<Rightarrow> string) \<Rightarrow> 'i MachineLogin \<Rightarrow> string outcome" where
  "MachineLogin_Identifier idString m =
     (case TokenID m of None \<Rightarrow> Panic | Some tokenID \<Rightarrow> Return (idString tokenID))"

record ProfileUpdate =
  ProfileUpdate_Name :: string
  ProfileUpdate_Email :: string
  ProfileUpdate_Password :: string

section \<open>Package registry: the credential tree and machines clients\<close>

text \<open>
  The registry \<open>Client\<close> is not part of these files.  Its two methods are the fields of
  the record: \<open>NewRequest\<close> builds a request from a method, a path, an optional query
  and an optional body, and \<open>Do\<close> executes a request and decodes the answer.  Each
  client function returns its result together with the calls it made on the client,
  in order.  \<open>url.Values\<close> is a map from keys to lists of values.
\<close>

type_synonym Values = "string \<rightharpoonup> string list"

record ('body, 'q, 'resp, 'x) Client =
  NewRequest :: "string \<Rightarrow> string \<Rightarrow> Values option \<Rightarrow> 'body option \<Rightarrow> 'x goerror + 'q"
  Do :: "'q \<Rightarrow> 'x goerror + 'resp"

datatype ('body, 'q) call =
    NewRequestCall string string "Values option" "'body option"
  | DoCall 'q

fun isDoCall :: "('body, 'q) call \<Rightarrow> bool" where
  "isDoCall (DoCall req) = True"
| "isDoCall (NewRequestCall method path query body) = False"

definition executions :: "('body, 'q) call list \<Rightarrow> nat" where
  "executions calls = length (filter isDoCall calls)"

record 's CredentialTree =
  Keyring :: "'s option"
  Members :: "'s list"
  Credentials :: "'s list"

definition CredentialTreeClient_Post ::
  "('s CredentialTree, 'q, 'resp, 'x) Client \<Rightarrow> 's CredentialTree option \<Rightarrow>
     ('x goerror + 'resp) \<times> ('s CredentialTree, 'q) call list" where
  "CredentialTreeClient_Post c t =
     (case NewRequest c ''POST'' ''/credentialtree'' None t of
        Inl err \<Rightarrow> (Inl err, [NewRequestCall ''POST'' ''/credentialtree'' None t])
      | Inr req \<Rightarrow>
          (case Do c req of
             Inl err \<Rightarrow> (Inl err, [NewRequestCall ''POST'' ''/credentialtree'' None t, DoCall req])
           | Inr resp \<Rightarrow> (Inr resp, [NewRequestCall ''POST'' ''/credentialtree'' None t, DoCall req])))"

text \<open>
  The query that \<open>List\<close> has built when it reaches \<open>NewRequest\<close>: the four
  conditional \<open>query.Set\<close> statements.  \<open>pathExpString\<close> and \<open>idString\<close> are the
  \<open>String\<close> methods of \<open>pathexp.PathExp\<close> and \<open>identity.ID\<close>.
\<close>

definition List_query ::
  "('p \<Rightarrow> string) \<Rightarrow> ('i \<Rightarrow> string) \<Rightarrow> string \<Rightarrow> string \<Rightarrow> 'p option \<Rightarrow> 'i option \<Rightarrow> Values" where
  "List_query pathExpString idString name path pathExp ownerID =
     (let query = Map.empty;
          query = (if path \<noteq> [] then query(''path'' \<mapsto> [path]) else query);
          query = (case pathExp of None \<Rightarrow> query | Some pe \<Rightarrow> query(''pathexp'' \<mapsto> [pathExpString pe]));
          query = (if name \<noteq> [] then query(''name'' \<mapsto> [name]) else query);
          query = (case ownerID of None \<Rightarrow> query | Some ident \<Rightarrow> query(''owner_id'' \<mapsto> [idString ident]))
      in query)"

definition CredentialTreeClient_List ::
  "('body, 'q, 'resp, 'x) Client \<Rightarrow> ('p \<Rightarrow> string) \<Rightarrow> ('i \<Rightarrow> string) \<Rightarrow>
     string \<Rightarrow> string \<Rightarrow> 'p option \<Rightarrow> 'i option \<Rightarrow>
     ('x goerror + 'resp) \<times> ('body, 'q) call list" where
  "CredentialTreeClient_List c pathExpString idString name path pathExp ownerID =
     (if path \<noteq> [] \<and> pathExp \<noteq> None then
        (Inl (ErrorString ''cannot provide path and pathexp at the same time''), [])
      else
        let query = List_query pathExpString idString name path pathExp ownerID in
        (case NewRequest c ''GET'' ''/credentialtree'' (Some query) None of
           Inl err \<Rightarrow> (Inl err, [NewRequestCall ''GET'' ''/credentialtree'' (Some query) None])
         | Inr req \<Rightarrow>
             (case Do c req of
                Inl err \<Rightarrow>
                  (Inl err, [NewRequestCall ''GET'' ''/credentialtree'' (Some query) None, DoCall req])
              | Inr resp \<Rightarrow>
                  (Inr resp, [NewRequestCall ''GET'' ''/credentialtree'' (Some query) None, DoCall req]))))"

text \<open>
  \<open>'u\<close> is \<open>envelope.Unsigned\<close> and \<open>'k\<close> a pointer to a \<open>ClaimedKeyPair\<close>.
\<close>

record ('u, 'k) MachineTokenCreationSegment =
  Token :: "'u option"
  Keypairs :: "'k list"

record ('u, 'k) MachineCreationSegment =
  Machine :: "'u option"
  Memberships :: "'u list"
  Tokens :: "('u, 'k) MachineTokenCreationSegment list"

definition MachinesClient_Create ::
  "(('u, 'k) MachineCreationSegment, 'q, 'resp, 'x) Client \<Rightarrow> 'u option \<Rightarrow> 'u list \<Rightarrow>
     ('u, 'k) MachineTokenCreationSegment option \<Rightarrow>
     ('x goerror + 'resp) outcome \<times> (('u, 'k) MachineCreationSegment, 'q) call list" where
  "MachinesClient_Create m machine memberships token =
     (case token of
        None \<Rightarrow> (Panic, [])
      | Some tok \<Rightarrow>
          let segment = \<lparr>Machine = machine, Memberships = memberships, Tokens = [tok]\<rparr> in
          (case NewRequest m ''POST'' ''/machines'' None (Some segment) of
             Inl err \<Rightarrow> (Return (Inl err), [NewRequestCall ''POST'' ''/machines'' None (Some segment)])
           | Inr req \<Rightarrow>
               (case Do m req of
                  Inl err \<Rightarrow>
                    (Return (Inl err),
                     [NewRequestCall ''POST'' ''/machines'' None (Some segment), DoCall req])
                | Inr resp \<Rightarrow>
                    (Return (Inr resp),
                     [NewRequestCall ''POST'' ''/machines'' None (Some segment), DoCall req]))))"

definition MachinesClient_Get ::
  "('body, 'q, 'resp, 'x) Client \<Rightarrow> ('i \<Rightarrow> string) \<Rightarrow> 'i option \<Rightarrow>
     ('x goerror + 'resp) outcome \<times> ('body, 'q) call list" where
  "MachinesClient_Get m idString machineID =
     (case machineID of
        None \<Rightarrow> (Panic, [])
      | Some ident \<Rightarrow>
          (case NewRequest m ''GET'' (''/machines/'' @ idString ident) None None of
             Inl err \<Rightarrow>
               (Return (Inl err), [NewRequestCall ''GET'' (''/machines/'' @ idString ident) None None])
           | Inr req \<Rightarrow>
               (case Do m req of
                  Inl err \<Rightarrow>
                    (Return (Inl err),
                     [NewRequestCall ''GET'' (''/machines/'' @ idString ident) None None, DoCall req])
                | Inr resp \<Rightarrow>
                    (Return (Inr resp),
                     [NewRequestCall ''GET'' (''/machines/'' @ idString ident) None None, DoCall req]))))"


section \<open>Package cmd: projects and profile\<close>

text \<open>
  The api client, the prompts and the constructors of package \<open>errs\<close> are not part of
  these files.  The calls a command makes on them are recorded in order; what they
  return is a parameter.  \<open>errorString\<close> is the \<open>Error()\<close> method of an error value.
\<close>

definition projectCreateFailed :: string where
  "projectCreateFailed = ''Could not create project.''"

datatype 'i project_event =
    ProjectsCreateCall "'i option" string
  | ProjectPrinted string

definition createProjectByName ::
  "('i option \<Rightarrow> string \<Rightarrow> 'x goerror + 'p) \<Rightarrow> ('x goerror \<Rightarrow> string) \<Rightarrow> 'i option \<Rightarrow> string \<Rightarrow>
     ('x goerror + 'p) \<times> 'i project_event list" where
  "createProjectByName ProjectsCreate errorString orgID name =
     (let created = ProjectsCreate orgID name;
          events = [ProjectsCreateCall orgID name]
      in if orgID = None then (Inl (ExitError ''Org not found''), events)
         else
           (case created of
              Inl err \<Rightarrow>
                (if Contains (errorString err) ''resource exists''
                 then (Inl (ExitError ''Project already exists''), events)
                 else (Inl (ErrorExitError projectCreateFailed err), events))
            | Inr project \<Rightarrow>
                (Inr project, events @ [ProjectPrinted (''Project '' @ name @ '' created.'' @ [CHR 0x0A])])))"

text \<open>
  What \<open>profileEdit\<close> reads of a session: the results of its methods \<open>Type\<close>,
  \<open>Name\<close>, \<open>Email\<close> and \<open>Username\<close>.
\<close>

record Session =
  Session_Type :: string
  Session_Name :: string
  Session_Email :: string
  Session_Username :: string

text \<open>
  The collaborators of \<open>profileEdit\<close>.  \<open>SessionWho n\<close> is the answer to the call of
  \<open>client.Session.Who\<close> made after \<open>n\<close> updates have been sent.
\<close>

record ('cfg, 'x) ProfileEnv =
  LoadConfig :: "'x goerror + 'cfg"
  SessionWho :: "nat \<Rightarrow> 'x goerror + Session"
  FullNamePrompt :: "string \<Rightarrow> 'x goerror + string"
  EmailPrompt :: "string \<Rightarrow> 'x goerror + string"
  ConfirmDialogue :: "string \<Rightarrow> 'x goerror option"
  UsersUpdate :: "ProfileUpdate \<Rightarrow> 'x goerror option"

datatype profile_event =
    LoadConfigCall
  | SessionWhoCall
  | FullNamePromptCall string
  | EmailPromptCall string
  | ConfirmDialogueCall string
  | UsersUpdateCall ProfileUpdate
  | ProfilePrinted string

text \<open>The lines written through the tab writer at the end of \<open>profileEdit\<close>.\<close>

definition profileTable :: "Session \<Rightarrow> string" where
  "profileTable updatedSession =
     ''Name:'' @ [CHR 0x09] @ Session_Name updatedSession @ [CHR 0x0A] @
     ''Email:'' @ [CHR 0x09] @ Session_Email updatedSession @ [CHR 0x0A] @
     ''Username:'' @ [CHR 0x09] @ Session_Username updatedSession @ [CHR 0x0A, CHR 0x0A]"

definition profileEdit :: "('cfg, 'x) ProfileEnv \<Rightarrow> 'x goerror option \<times> profile_event list" where
  "profileEdit env =
     (case LoadConfig env of
        Inl err \<Rightarrow> (Some err, [LoadConfigCall])
      | Inr cfg \<Rightarrow>
     (case SessionWho env 0 of
        Inl err \<Rightarrow>
          (Some (ErrorExitError ''Error fetching user details'' err), [LoadConfigCall, SessionWhoCall])
      | Inr session \<Rightarrow>
     if Session_Type session = MachineSession then
       (Some (ExitError ''Machines do not have profiles''), [LoadConfigCall, SessionWhoCall])
     else
     let ogName = Session_Name session in
     (case FullNamePrompt env ogName of
        Inl err \<Rightarrow> (Some err, [LoadConfigCall, SessionWhoCall, FullNamePromptCall ogName])
      | Inr name \<Rightarrow>
     let ogEmail = Session_Email session in
     (case EmailPrompt env ogEmail of
        Inl err \<Rightarrow>
          (Some err, [LoadConfigCall, SessionWhoCall, FullNamePromptCall ogName, EmailPromptCall ogEmail])
      | Inr email \<Rightarrow>
     let prompted = [LoadConfigCall, SessionWhoCall, FullNamePromptCall ogName, EmailPromptCall ogEmail];
         warning =
           (if email \<noteq> ogEmail
            then [CHR 0x0A] @ ''You will be required to re-verify your email address before taking any further actions within Torus.''
            else [CHR 0x0A] @ ''You are about to update your profile to the values above.'')
     in
     if ogEmail = email \<and> ogName = name then
       (None, prompted @ [ProfilePrinted ([CHR 0x0A] @ ''No changes made :)'' @ [CHR 0x0A])])
     else
     (case ConfirmDialogue env warning of
        Some err \<Rightarrow> (Some err, prompted @ [ConfirmDialogueCall warning])
      | None \<Rightarrow>
     let delta = \<lparr>ProfileUpdate_Name = [], ProfileUpdate_Email = [], ProfileUpdate_Password = []\<rparr>;
         delta = (if ogEmail \<noteq> email then delta\<lparr>ProfileUpdate_Email := email\<rparr> else delta);
         delta = (if ogName \<noteq> name then delta\<lparr>ProfileUpdate_Name := name\<rparr> else delta)
     in
     (case UsersUpdate env delta of
        Some err \<Rightarrow>
          (Some (ErrorExitError ''Failed to update profile.'' err),
           prompted @ [ConfirmDialogueCall warning, UsersUpdateCall delta])
      | None \<Rightarrow>
     (case SessionWho env 1 of
        Inl err \<Rightarrow>
          (Some (ErrorExitError ''Error fetching user details'' err),
           prompted @ [ConfirmDialogueCall warning, UsersUpdateCall delta, SessionWhoCall])
      | Inr updatedSession \<Rightarrow>
          (None,
           prompted @ [ConfirmDialogueCall warning, UsersUpdateCall delta, SessionWhoCall,
             ProfilePrinted [CHR 0x0A], ProfilePrinted (profileTable updatedSession)]))))))))"

fun isPromptOrUpdate :: "profile_event \<Rightarrow> bool" where
  "isPromptOrUpdate (FullNamePromptCall ogName) = True"
| "isPromptOrUpdate (EmailPromptCall ogEmail) = True"
| "isPromptOrUpdate (ConfirmDialogueCall warning) = True"
| "isPromptOrUpdate (UsersUpdateCall delta) = True"
| "isPromptOrUpdate event = False"

fun isUsersUpdate :: "profile_event \<Rightarrow> bool" where
  "isUsersUpdate (UsersUpdateCall delta) = True"
| "isUsersUpdate event = False"

section \<open>The JavaScript command line: wrap and credentials set\<close>

text \<open>
  JavaScript values, as far as the code looks at them.  An object or a function is
  given by the properties that a property read finds on it, own or inherited, as a list
  of names and properties in which the first entry for a name counts; a function
  carries an identifier as well.  A property is a data property with its value, or an
  accessor, given by what its getter does when the property is read: it returns a value
  or it throws (the \<open>get\<close> trap of a Proxy is an accessor in this sense).  Numbers
  are integers or NaN.
\<close>

datatype jsval =
    Undefined
  | Null
  | JBool bool
  | JNum int
  | JNaN
  | JStr string
  | JSymbol nat
  | JObj "(string \<times> jsprop) list"
  | JFun nat "(string \<times> jsprop) list"
and jsprop =
    Data jsval
  | GetterReturns jsval
  | GetterThrows jsval

text \<open>The result of evaluating a call or a property read: it throws or it yields a value.\<close>

datatype completion = Throw jsval | Normal jsval

definition NewError :: "string \<Rightarrow> jsval" where
  "NewError message = JObj [(''name'', Data (JStr ''Error'')), (''message'', Data (JStr message))]"

definition TypeError :: jsval where
  "TypeError = JObj [(''name'', Data (JStr ''TypeError''))]"

text \<open>\<open>ToBoolean\<close>: the values that count as false are undefined, null, false, 0, NaN and the empty string.\<close>

fun truthy :: "jsval \<Rightarrow> bool" where
  "truthy Undefined = False"
| "truthy Null = False"
| "truthy (JBool b) = b"
| "truthy (JNum n) = (n \<noteq> 0)"
| "truthy JNaN = False"
| "truthy (JStr s) = (s \<noteq> [])"
| "truthy (JSymbol s) = True"
| "truthy (JObj props) = True"
| "truthy (JFun f props) = True"

text \<open>Reading a property that was looked up: a missing property reads as undefined.\<close>

fun readProp :: "jsprop option \<Rightarrow> completion" where
  "readProp None = Normal Undefined"
| "readProp (Some (Data v)) = Normal v"
| "readProp (Some (GetterReturns v)) = Normal v"
| "readProp (Some (GetterThrows err)) = Throw err"

text \<open>
  The property read \<open>v.then\<close>: a TypeError on undefined and null; undefined on the
  other primitive values, whose prototypes have no \<open>then\<close> property in the language;
  on an object or a function, what reading its \<open>then\<close> property gives.
\<close>

fun Get_then :: "jsval \<Rightarrow> completion" where
  "Get_then Undefined = Throw TypeError"
| "Get_then Null = Throw TypeError"
| "Get_then (JObj props) = readProp (map_of props ''then'')"
| "Get_then (JFun f props) = readProp (map_of props ''then'')"
| "Get_then v = Normal Undefined"

text \<open>
  What \<open>wrap\<close> gives back: the promise made by \<open>Promise.reject(err)\<close>, the promise made
  by \<open>Promise.resolve(result)\<close>, or \<open>result\<close> itself; \<open>Thrown\<close> is an exception that
  leaves \<open>wrap\<close>.
\<close>

datatype wrapped =
    PromiseReject jsval
  | PromiseResolve jsval
  | Result jsval
  | Thrown jsval

text \<open>
  \<open>wrap(fn)\<close>.  \<open>fn\<close> is called once, without arguments, inside the \<open>try\<close>; the
  argument of the model is the completion of that call.  The test
  \<open>!(result && result.then)\<close> is outside the \<open>try\<close>: it reads \<open>result.then\<close> when
  \<open>result\<close> is truthy, and an exception of that read leaves \<open>wrap\<close>.
\<close>

definition wrap :: "completion \<Rightarrow> wrapped" where
  "wrap fn =
     (case fn of
        Throw err \<Rightarrow> PromiseReject err
      | Normal result \<Rightarrow>
          (if \<not> truthy result then PromiseResolve result
           else
             (case Get_then result of
                Throw err \<Rightarrow> Thrown err
              | Normal then_property \<Rightarrow>
                  if \<not> truthy then_property then PromiseResolve result else Result result)))"




text \<open>
  \<open>set.execute(ctx)\<close>.  The promise it returns is given by how it settles.  The
  collaborators \<open>cValue.create\<close>, \<open>harvest\<close> and \<open>credentials.create\<close> are
  parameters; the calls made on them are recorded in order.  An exception inside the
  executor of \<open>new Promise\<close> rejects the promise, and the promise returned by
  \<open>credentials.create\<close> settles the outer one through \<open>then(resolve)\<close> and
  \<open>catch(reject)\<close>; \<open>credentials_create\<close> gives how that promise settles, an
  exception of the call itself counting as a rejection.
\<close>

datatype settled = Fulfilled jsval | Rejected jsval | Pending

datatype set_event =
    CValueCreateCall jsval
  | HarvestCall
  | CredentialsCreateCall jsval jsval jsval

definition set_execute ::
  "(jsval \<Rightarrow> completion) \<Rightarrow> completion \<Rightarrow> (jsval \<Rightarrow> jsval \<Rightarrow> jsval \<Rightarrow> settled) \<Rightarrow>
     jsval \<Rightarrow> jsval list \<Rightarrow> settled \<times> set_event list" where
  "set_execute cValue_create harvest credentials_create session params =
     (if length params < 2 then (Rejected (NewError ''You must provide two parameters''), [])
      else
        (case cValue_create (params ! 1) of
           Throw err \<Rightarrow> (Rejected err, [CValueCreateCall (params ! 1)])
         | Normal v \<Rightarrow>
             (case harvest of
                Throw err \<Rightarrow> (Rejected err, [CValueCreateCall (params ! 1), HarvestCall])
              | Normal harvested \<Rightarrow>
                  (credentials_create session harvested v,
                   [CValueCreateCall (params ! 1), HarvestCall,
                    CredentialsCreateCall session harvested v]))))"

section \<open>Properties of the API errors\<close>

lemma Contains_sublist: "Contains s substr = sublist substr s"
  by (induction s) (simp_all add: sublist_Cons_right)

lemma FormatError_range_iff:
  "FormatError_range ms = (\<exists>m \<in> set ms. sublist ''wrong identity state: unverified'' m)"
  by (induction ms) (simp_all add: Contains_sublist)

lemma Split_loop_not_Nil: "Split_loop sep cur s \<noteq> []"
  by (induction sep cur s rule: Split_loop.induct) (subst Split_loop.simps, simp)

lemma Split_loop_char:
  "Join (Split_loop [c] cur s) [d] = cur @ map (\<lambda>x. if x = c then d else x) s"
proof (induction "[c]" cur s rule: Split_loop.induct)
  case (1 cur s)
  show ?case
  proof (cases s)
    case Nil
    then show ?thesis by (simp add: Split_loop.simps)
  next
    case (Cons x xs)
    show ?thesis
    proof (cases "x = c")
      case True
      with Cons 1(1) have ih: "Join (Split_loop [c] [] xs) [d] = map (\<lambda>x. if x = c then d else x) xs"
        by simp
      have ne: "Split_loop [c] [] xs \<noteq> []"
        by (rule Split_loop_not_Nil)
      then obtain p ps where ps: "Split_loop [c] [] xs = p # ps"
        by (cases "Split_loop [c] [] xs") auto
      from Cons True have "Split_loop [c] cur s = cur # Split_loop [c] [] xs"
        by (subst Split_loop.simps) simp
      with ps ih Cons True show ?thesis by simp
    next
      case False
      with Cons 1(2) have ih: "Join (Split_loop [c] (cur @ [x]) xs) [d] =
          (cur @ [x]) @ map (\<lambda>x. if x = c then d else x) xs"
        by simp
      from Cons False have "Split_loop [c] cur s = Split_loop [c] (cur @ [x]) xs"
        by (subst Split_loop.simps) simp
      with ih Cons False show ?thesis by simp
    qed
  qed
qed

text \<open>
  C7, as the claim states it, fails in its first half: the registry error does not decode
  exactly the body keys \<open>type\<close> and \<open>error\<close>.  The field \<open>StatusCode\<close> has no
  \<open>json\<close> tag, so a body key \<open>StatusCode\<close> is decoded into it, whatever the
  comparison of keys without regard to case does.
\<close>

theorem Error_decodes_StatusCode_counterexample:
  "fieldOfKey (=) ''StatusCode'' = Some (''StatusCode'', GoInt)"
  by (simp add: fieldOfKey_def Error_fields_def)

text \<open>
  C7, amended.  The registry error decodes the body key \<open>type\<close> as a string and the body
  key \<open>error\<close> as a list of strings, and also the body key \<open>StatusCode\<close> as an
  integer; a key is decoded exactly when it equals one of these three or matches one
  of them without regard to case.  For every error value, \<open>Error()\<close> renders it as the
  type string with every underscore replaced by a space, title-cased, followed by a
  colon and a space and the message strings joined by single spaces.
\<close>

theorem Error_Error_renders:
  "fieldOfKey equalFold ''type'' = Some (''type'', GoString)
   \<and> fieldOfKey equalFold ''error'' = Some (''error'', GoStringSlice)
   \<and> fieldOfKey equalFold ''StatusCode'' = Some (''StatusCode'', GoInt)
   \<and> (fieldOfKey equalFold key = None \<longleftrightarrow>
        key \<noteq> ''StatusCode'' \<and> key \<noteq> ''type'' \<and> key \<noteq> ''error'' \<and>
        \<not> equalFold ''StatusCode'' key \<and> \<not> equalFold ''type'' key \<and> \<not> equalFold ''error'' key)
   \<and> Error_Error u e =
        Title u (map (\<lambda>c. if c = CHR ''_'' then CHR '' '' else c) (Type e))
          @ '': '' @ Join (Err e) '' ''"
proof -
  have keys: "fieldOfKey equalFold ''type'' = Some (''type'', GoString)"
    "fieldOfKey equalFold ''error'' = Some (''error'', GoStringSlice)"
    "fieldOfKey equalFold ''StatusCode'' = Some (''StatusCode'', GoInt)"
    by (simp_all add: fieldOfKey_def Error_fields_def)
  have only: "fieldOfKey equalFold key = None \<longleftrightarrow>
        key \<noteq> ''StatusCode'' \<and> key \<noteq> ''type'' \<and> key \<noteq> ''error'' \<and>
        \<not> equalFold ''StatusCode'' key \<and> \<not> equalFold ''type'' key \<and> \<not> equalFold ''error'' key"
    by (auto simp: fieldOfKey_def Error_fields_def split: option.splits if_splits)
  have renders: "Error_Error u e =
        Title u (map (\<lambda>c. if c = CHR ''_'' then CHR '' '' else c) (Type e))
          @ '': '' @ Join (Err e) '' ''"
    by (simp add: Error_Error_def Split_def Split_loop_char [where cur = "[]", simplified])
  from keys only renders show ?thesis
    by (intro conjI)
qed

theorem Error_Error_renders_witness:
  "fieldOfKey (=) ''type'' = Some (''type'', GoString)
   \<and> fieldOfKey (=) ''error'' = Some (''error'', GoStringSlice)
   \<and> fieldOfKey (=) ''message'' = None
   \<and> Error_Error \<lparr>TitleUnicode = id, explodeUnicode = (\<lambda>s. [s])\<rparr>
        \<lparr>StatusCode = 404, Type = ''not_found'', Err = [''missing'', ''org'']\<rparr>
     = ''Not Found: missing org''"
  using Error_Error_renders [of "(=)" "''message''" "\<lparr>TitleUnicode = id, explodeUnicode = (\<lambda>s. [s])\<rparr>"
      "\<lparr>StatusCode = 404, Type = ''not_found'', Err = [''missing'', ''org'']\<rparr>"]
  by (simp add: Title_def isASCII_def isSeparator_ASCII_def ToTitle_ASCII_def char_of_def
      bit_Suc_0_iff)

text \<open>
  C1, as the claim states it, fails on one error value: an error interface that holds a
  nil \<open>*Error\<close> pointer is not an unauthorized API error, yet \<open>FormatError\<close> does not
  return it unchanged; it panics when it reads the type of the error.
\<close>

theorem FormatError_nil_pointer_counterexample:
  "FormatError (Some (APIError None) :: unit goerror option) = Panic"
  by (simp add: FormatError_def)

text \<open>
  C1, amended.  For every error value other than an interface holding a nil \<open>*Error\<close>
  pointer: an API error of type \<open>unauthorized\<close> one of whose messages contains
  \<open>wrong identity state: unverified\<close> is formatted as the unverified-account error,
  which has status 401, type \<open>unauthorized\<close> and the message that asks to verify the
  account; an API error of type \<open>unauthorized\<close> without that substring is formatted as
  the generic unauthorized error, a different error with the message
  "You are unauthorized to perform this action."; \<open>IsNotFoundError\<close> returns true
  exactly for the API errors of type \<open>not_found\<close> and false for the others; every error
  that is not an unauthorized API error is returned unchanged, and nil is mapped to
  nil.
\<close>

theorem FormatError_IsNotFoundError_cases:
  fixes e :: Error and err :: "'x goerror option"
  shows
  "(Type e = ''unauthorized'' \<and> (\<exists>m \<in> set (Err e). sublist ''wrong identity state: unverified'' m)
      \<longrightarrow> FormatError (Some (APIError (Some e)) :: 'x goerror option) =
          Return (Some (APIError (Some
            \<lparr>StatusCode = 401, Type = ''unauthorized'',
             Err = [''Your account has not yet been verified.'' @ [CHR 0x0A, CHR 0x0A] @
               ''Please check your email for your verification code and follow the enclosed instructions.'' @ [CHR 0x0A] @
               ''Once you have verified your account you may retry this operation.'']\<rparr>))))
   \<and> (Type e = ''unauthorized'' \<and> \<not> (\<exists>m \<in> set (Err e). sublist ''wrong identity state: unverified'' m)
      \<longrightarrow> FormatError (Some (APIError (Some e)) :: 'x goerror option) =
          Return (Some (APIError (Some
            \<lparr>StatusCode = 401, Type = ''unauthorized'',
             Err = [''You are unauthorized to perform this action.'']\<rparr>))))
   \<and> NewUnverifiedError =
        \<lparr>StatusCode = 401, Type = ''unauthorized'',
         Err = [''Your account has not yet been verified.'' @ [CHR 0x0A, CHR 0x0A] @
           ''Please check your email for your verification code and follow the enclosed instructions.'' @ [CHR 0x0A] @
           ''Once you have verified your account you may retry this operation.'']\<rparr>
   \<and> NewUnverifiedError \<noteq>
        \<lparr>StatusCode = 401, Type = ''unauthorized'',
         Err = [''You are unauthorized to perform this action.'']\<rparr>
   \<and> (IsNotFoundError err = Return True \<longleftrightarrow>
        (\<exists>a. err = Some (APIError (Some a)) \<and> Type a = ''not_found''))
   \<and> (err \<noteq> Some (APIError None) \<longrightarrow>
        IsNotFoundError err = Return (\<exists>a. err = Some (APIError (Some a)) \<and> Type a = ''not_found''))
   \<and> (err \<noteq> Some (APIError None) \<and> \<not> (\<exists>a. err = Some (APIError (Some a)) \<and> Type a = ''unauthorized'')
        \<longrightarrow> FormatError err = Return err)
   \<and> FormatError (None :: 'x goerror option) = Return None"
proof -
  have unverified: "Type e = ''unauthorized'' \<and> (\<exists>m \<in> set (Err e). sublist ''wrong identity state: unverified'' m)
      \<longrightarrow> FormatError (Some (APIError (Some e)) :: 'x goerror option) =
          Return (Some (APIError (Some
            \<lparr>StatusCode = 401, Type = ''unauthorized'',
             Err = [''Your account has not yet been verified.'' @ [CHR 0x0A, CHR 0x0A] @
               ''Please check your email for your verification code and follow the enclosed instructions.'' @ [CHR 0x0A] @
               ''Once you have verified your account you may retry this operation.'']\<rparr>)))"
    by (simp add: FormatError_def UnauthorizedError_def FormatError_range_iff NewUnverifiedError_def)
  have generic: "Type e = ''unauthorized'' \<and> \<not> (\<exists>m \<in> set (Err e). sublist ''wrong identity state: unverified'' m)
      \<longrightarrow> FormatError (Some (APIError (Some e)) :: 'x goerror option) =
          Return (Some (APIError (Some
            \<lparr>StatusCode = 401, Type = ''unauthorized'',
             Err = [''You are unauthorized to perform this action.'']\<rparr>)))"
    by (simp add: FormatError_def UnauthorizedError_def FormatError_range_iff)
  have content: "NewUnverifiedError =
        \<lparr>StatusCode = 401, Type = ''unauthorized'',
         Err = [''Your account has not yet been verified.'' @ [CHR 0x0A, CHR 0x0A] @
           ''Please check your email for your verification code and follow the enclosed instructions.'' @ [CHR 0x0A] @
           ''Once you have verified your account you may retry this operation.'']\<rparr>"
    by (simp add: NewUnverifiedError_def UnauthorizedError_def)
  have distinct: "NewUnverifiedError \<noteq>
        \<lparr>StatusCode = 401, Type = ''unauthorized'',
         Err = [''You are unauthorized to perform this action.'']\<rparr>"
    by (simp add: NewUnverifiedError_def)
  have not_found: "IsNotFoundError err = Return True \<longleftrightarrow>
        (\<exists>a. err = Some (APIError (Some a)) \<and> Type a = ''not_found'')"
    by (simp add: IsNotFoundError_def NotFoundError_def split: option.splits goerror.splits)
  have not_found_value: "err \<noteq> Some (APIError None) \<longrightarrow>
        IsNotFoundError err = Return (\<exists>a. err = Some (APIError (Some a)) \<and> Type a = ''not_found'')"
    by (simp add: IsNotFoundError_def NotFoundError_def split: option.splits goerror.splits)
  have unchanged: "err \<noteq> Some (APIError None) \<and> \<not> (\<exists>a. err = Some (APIError (Some a)) \<and> Type a = ''unauthorized'')
        \<longrightarrow> FormatError err = Return err"
    by (simp add: FormatError_def UnauthorizedError_def split: option.splits goerror.splits)
  have nil: "FormatError (None :: 'x goerror option) = Return None"
    by (simp add: FormatError_def)
  from unverified generic content distinct not_found not_found_value unchanged nil show ?thesis
    by (intro conjI)
qed

theorem FormatError_IsNotFoundError_cases_witness:
  "FormatError (Some (APIError (Some \<lparr>StatusCode = 403, Type = ''unauthorized'',
        Err = [''denied'', ''wrong identity state: unverified user'']\<rparr>)) :: unit goerror option)
     = Return (Some (APIError (Some NewUnverifiedError)))
   \<and> FormatError (Some (APIError (Some \<lparr>StatusCode = 403, Type = ''unauthorized'',
        Err = [''denied'']\<rparr>)) :: unit goerror option)
     = Return (Some (APIError (Some \<lparr>StatusCode = 401, Type = ''unauthorized'',
                         Err = [''You are unauthorized to perform this action.'']\<rparr>)))
   \<and> IsNotFoundError (Some (APIError (Some \<lparr>StatusCode = 404, Type = ''not_found'', Err = []\<rparr>))
        :: unit goerror option) = Return True
   \<and> FormatError (Some (APIError (Some \<lparr>StatusCode = 404, Type = ''not_found'', Err = []\<rparr>))
        :: unit goerror option)
     = Return (Some (APIError (Some \<lparr>StatusCode = 404, Type = ''not_found'', Err = []\<rparr>)))
   \<and> IsNotFoundError (Some (OtherError ())) = Return False
   \<and> FormatError (Some (OtherError ())) = Return (Some (OtherError ()))"
  using
    FormatError_IsNotFoundError_cases [where 'x = unit,
      of "\<lparr>StatusCode = 403, Type = ''unauthorized'',
           Err = [''denied'', ''wrong identity state: unverified user'']\<rparr>"
         "Some (APIError (Some \<lparr>StatusCode = 404, Type = ''not_found'', Err = []\<rparr>))"]
    FormatError_IsNotFoundError_cases [where 'x = unit,
      of "\<lparr>StatusCode = 403, Type = ''unauthorized'', Err = [''denied'']\<rparr>"
         "Some (OtherError ())"]
  by (simp add: sublist_code)

section \<open>Properties of the login credentials\<close>

text \<open>
  C8, as the claim states it, fails for a machine login without a secret:
  \<open>Passphrase()\<close> dereferences the nil \<open>Secret\<close> pointer and panics, so it does not
  return the byte form of a secret.
\<close>

theorem MachineLogin_Passphrase_nil_counterexample:
  "MachineLogin_Passphrase \<lparr>TokenID = Some (7::nat), Secret = None\<rparr> = Panic"
  by (simp add: MachineLogin_Passphrase_def)

text \<open>
  C8, amended.  A user login is valid exactly when email and password are both
  non-empty; a machine login is valid exactly when the token ID is present, the secret
  is present and the string form of the secret is non-empty.  The passphrase of a user
  login is the byte form of its password and its identifier is its email; the
  passphrase of a machine login whose secret is present is the byte form of the secret,
  and the identifier of a machine login whose token ID is present is the string form of
  the token ID.
\<close>

theorem LoginCredential_Valid_iff:
  "(UserLogin_Valid u \<longleftrightarrow> Email u \<noteq> [] \<and> Password u \<noteq> [])
   \<and> UserLogin_Passphrase u = Password u
   \<and> UserLogin_Identifier u = Email u
   \<and> (MachineLogin_Valid valueString m \<longleftrightarrow>
        TokenID m \<noteq> None \<and> Secret m \<noteq> None \<and> (\<exists>secret. Secret m = Some secret \<and> valueString secret \<noteq> []))
   \<and> (\<forall>secret. Secret m = Some secret \<longrightarrow> MachineLogin_Passphrase m = Return secret)
   \<and> (\<forall>tokenID. TokenID m = Some tokenID \<longrightarrow>
        MachineLogin_Identifier idString m = Return (idString tokenID))"
  by (auto simp: UserLogin_Valid_def UserLogin_Passphrase_def UserLogin_Identifier_def
      MachineLogin_Valid_def MachineLogin_Passphrase_def MachineLogin_Identifier_def
      split: option.splits)

theorem LoginCredential_Valid_iff_witness:
  "UserLogin_Valid \<lparr>Email = ''a@example.com'', Password = ''hunter2''\<rparr>
   \<and> UserLogin_Passphrase \<lparr>Email = ''a@example.com'', Password = ''hunter2''\<rparr> = ''hunter2''
   \<and> UserLogin_Identifier \<lparr>Email = ''a@example.com'', Password = ''hunter2''\<rparr> = ''a@example.com''
   \<and> MachineLogin_Valid (\<lambda>bs. bs) \<lparr>TokenID = Some (7::nat), Secret = Some ''s3cr3t''\<rparr>
   \<and> MachineLogin_Passphrase \<lparr>TokenID = Some (7::nat), Secret = Some ''s3cr3t''\<rparr> = Return ''s3cr3t''
   \<and> MachineLogin_Identifier (\<lambda>n. replicate n (CHR ''i''))
         \<lparr>TokenID = Some (2::nat), Secret = Some ''s3cr3t''\<rparr> = Return ''ii''"
  using
    LoginCredential_Valid_iff [of "\<lparr>Email = ''a@example.com'', Password = ''hunter2''\<rparr>"
      "\<lambda>bs. bs" "\<lparr>TokenID = Some (7::nat), Secret = Some ''s3cr3t''\<rparr>" "\<lambda>n. replicate n (CHR ''i'')"]
    LoginCredential_Valid_iff [of "\<lparr>Email = ''a@example.com'', Password = ''hunter2''\<rparr>"
      "\<lambda>bs. bs" "\<lparr>TokenID = Some (2::nat), Secret = Some ''s3cr3t''\<rparr>" "\<lambda>n. replicate n (CHR ''i'')"]
  by (simp add: numeral_2_eq_2)

section \<open>Properties of the registry clients\<close>

lemma List_query_dom:
  "dom (List_query pathExpString idString name path pathExp ownerID) =
     {k. k = ''path'' \<and> path \<noteq> [] \<or> k = ''pathexp'' \<and> pathExp \<noteq> None \<or>
         k = ''name'' \<and> name \<noteq> [] \<or> k = ''owner_id'' \<and> ownerID \<noteq> None}"
  by (auto simp: List_query_def Let_def split: option.splits if_splits)

lemma List_query_values:
  "List_query pathExpString idString name path pathExp ownerID ''path'' =
      (if path \<noteq> [] then Some [path] else None)"
  "List_query pathExpString idString name path pathExp ownerID ''pathexp'' =
      map_option (\<lambda>pe. [pathExpString pe]) pathExp"
  "List_query pathExpString idString name path pathExp ownerID ''name'' =
      (if name \<noteq> [] then Some [name] else None)"
  "List_query pathExpString idString name path pathExp ownerID ''owner_id'' =
      map_option (\<lambda>ident. [idString ident]) ownerID"
  by (simp_all add: List_query_def Let_def split: option.splits)

text \<open>
  C2.  When \<open>path\<close> is non-empty and \<open>pathExp\<close> is non-nil, \<open>List\<close> returns the
  error "cannot provide path and pathexp at the same time" and has neither built nor
  sent a request.  Otherwise the first thing it does is to build one GET request for
  \<open>/credentialtree\<close> whose query has a \<open>path\<close>, \<open>pathexp\<close>, \<open>name\<close> or
  \<open>owner_id\<close> parameter exactly for the arguments that are non-empty or non-nil, each
  with the value of its argument.
\<close>

theorem CredentialTreeClient_List_query:
  fixes c :: "('body, 'q, 'resp, 'x) Client"
  shows
  "(path \<noteq> [] \<and> pathExp \<noteq> None \<longrightarrow>
      CredentialTreeClient_List c pathExpString idString name path pathExp ownerID =
        (Inl (ErrorString ''cannot provide path and pathexp at the same time''), []))
   \<and> (\<not> (path \<noteq> [] \<and> pathExp \<noteq> None) \<longrightarrow>
      (\<exists>query rest.
          snd (CredentialTreeClient_List c pathExpString idString name path pathExp ownerID) =
            NewRequestCall ''GET'' ''/credentialtree'' (Some query) None # rest
        \<and> (\<forall>call \<in> set rest. isDoCall call)
        \<and> dom query =
            {k. k = ''path'' \<and> path \<noteq> [] \<or> k = ''pathexp'' \<and> pathExp \<noteq> None \<or>
                k = ''name'' \<and> name \<noteq> [] \<or> k = ''owner_id'' \<and> ownerID \<noteq> None}
        \<and> (path \<noteq> [] \<longrightarrow> query ''path'' = Some [path])
        \<and> (\<forall>pe. pathExp = Some pe \<longrightarrow> query ''pathexp'' = Some [pathExpString pe])
        \<and> (name \<noteq> [] \<longrightarrow> query ''name'' = Some [name])
        \<and> (\<forall>ident. ownerID = Some ident \<longrightarrow> query ''owner_id'' = Some [idString ident])))"
proof (intro conjI impI)
  assume "path \<noteq> [] \<and> pathExp \<noteq> None"
  then show "CredentialTreeClient_List c pathExpString idString name path pathExp ownerID =
        (Inl (ErrorString ''cannot provide path and pathexp at the same time''), [])"
    by (simp add: CredentialTreeClient_List_def)
next
  let ?query = "List_query pathExpString idString name path pathExp ownerID"
  assume excl: "\<not> (path \<noteq> [] \<and> pathExp \<noteq> None)"
  then have "\<exists>rest. snd (CredentialTreeClient_List c pathExpString idString name path pathExp ownerID) =
      NewRequestCall ''GET'' ''/credentialtree'' (Some ?query) None # rest \<and> (\<forall>call \<in> set rest. isDoCall call)"
    by (auto simp: CredentialTreeClient_List_def Let_def split: sum.splits)
  then obtain rest where rest:
    "snd (CredentialTreeClient_List c pathExpString idString name path pathExp ownerID) =
      NewRequestCall ''GET'' ''/credentialtree'' (Some ?query) None # rest"
    "\<forall>call \<in> set rest. isDoCall call"
    by blast
  have "dom ?query = {k. k = ''path'' \<and> path \<noteq> [] \<or> k = ''pathexp'' \<and> pathExp \<noteq> None \<or>
                k = ''name'' \<and> name \<noteq> [] \<or> k = ''owner_id'' \<and> ownerID \<noteq> None}"
    by (rule List_query_dom)
  moreover have "path \<noteq> [] \<longrightarrow> ?query ''path'' = Some [path]"
    by (simp add: List_query_values)
  moreover have "\<forall>pe. pathExp = Some pe \<longrightarrow> ?query ''pathexp'' = Some [pathExpString pe]"
    by (simp add: List_query_values)
  moreover have "name \<noteq> [] \<longrightarrow> ?query ''name'' = Some [name]"
    by (simp add: List_query_values)
  moreover have "\<forall>ident. ownerID = Some ident \<longrightarrow> ?query ''owner_id'' = Some [idString ident]"
    by (simp add: List_query_values)
  ultimately show "\<exists>query rest.
          snd (CredentialTreeClient_List c pathExpString idString name path pathExp ownerID) =
            NewRequestCall ''GET'' ''/credentialtree'' (Some query) None # rest
        \<and> (\<forall>call \<in> set rest. isDoCall call)
        \<and> dom query =
            {k. k = ''path'' \<and> path \<noteq> [] \<or> k = ''pathexp'' \<and> pathExp \<noteq> None \<or>
                k = ''name'' \<and> name \<noteq> [] \<or> k = ''owner_id'' \<and> ownerID \<noteq> None}
        \<and> (path \<noteq> [] \<longrightarrow> query ''path'' = Some [path])
        \<and> (\<forall>pe. pathExp = Some pe \<longrightarrow> query ''pathexp'' = Some [pathExpString pe])
        \<and> (name \<noteq> [] \<longrightarrow> query ''name'' = Some [name])
        \<and> (\<forall>ident. ownerID = Some ident \<longrightarrow> query ''owner_id'' = Some [idString ident])"
    using rest by blast
qed

theorem CredentialTreeClient_List_query_witness:
  "CredentialTreeClient_List
       \<lparr>NewRequest = (\<lambda>method path query body. Inr (method, path)), Do = (\<lambda>req. Inr (fst req))\<rparr>
       (\<lambda>pe. pe) (\<lambda>ident. ident) ''API_KEY'' ''/acme/web'' (Some ''/acme/*'') (None :: string option)
     = (Inl (ErrorString ''cannot provide path and pathexp at the same time'' :: unit goerror),
        ([] :: (unit, string \<times> string) call list))
   \<and> (\<exists>query rest.
         snd (CredentialTreeClient_List
           (\<lparr>NewRequest = (\<lambda>method path query body. Inr (method, path)), Do = (\<lambda>req. Inr (fst req))\<rparr>
              :: (unit, string \<times> string, string, unit) Client)
           (\<lambda>pe. pe) (\<lambda>ident. ident) ''API_KEY'' [] (Some ''/acme/*'') (None :: string option))
           = NewRequestCall ''GET'' ''/credentialtree'' (Some query) None # rest
         \<and> dom query = {k. k = ''pathexp'' \<or> k = ''name''}
         \<and> query ''pathexp'' = Some [''/acme/*''] \<and> query ''name'' = Some [''API_KEY''])"
proof -
  let ?c = "\<lparr>NewRequest = (\<lambda>method path query body. Inr (method, path)), Do = (\<lambda>req. Inr (fst req))\<rparr>
         :: (unit, string \<times> string, string, unit) Client"
  have both: "CredentialTreeClient_List ?c (\<lambda>pe. pe) (\<lambda>ident. ident) ''API_KEY'' ''/acme/web''
       (Some ''/acme/*'') (None :: string option)
     = (Inl (ErrorString ''cannot provide path and pathexp at the same time''), [])"
    using CredentialTreeClient_List_query [of "''/acme/web''" "Some ''/acme/*''" ?c
      "\<lambda>pe. pe" "\<lambda>ident. ident" "''API_KEY''" "None :: string option"]
    by simp
  have "\<exists>query rest.
         snd (CredentialTreeClient_List ?c (\<lambda>pe. pe) (\<lambda>ident. ident) ''API_KEY'' []
           (Some ''/acme/*'') (None :: string option))
           = NewRequestCall ''GET'' ''/credentialtree'' (Some query) None # rest
         \<and> (\<forall>call \<in> set rest. isDoCall call)
         \<and> dom query = {k. k = ''pathexp'' \<or> k = ''name''}
         \<and> query ''pathexp'' = Some [''/acme/*''] \<and> query ''name'' = Some [''API_KEY'']"
    using CredentialTreeClient_List_query [of "[]" "Some ''/acme/*''" ?c
      "\<lambda>pe. pe" "\<lambda>ident. ident" "''API_KEY''" "None :: string option"]
    by simp
  then obtain query rest where one:
    "snd (CredentialTreeClient_List ?c (\<lambda>pe. pe) (\<lambda>ident. ident) ''API_KEY'' []
           (Some ''/acme/*'') (None :: string option))
       = NewRequestCall ''GET'' ''/credentialtree'' (Some query) None # rest"
    "dom query = {k. k = ''pathexp'' \<or> k = ''name''}"
    "query ''pathexp'' = Some [''/acme/*'']" "query ''name'' = Some [''API_KEY'']"
    by (elim exE conjE)
  show ?thesis
    apply (rule conjI)
     apply (rule both)
    apply (rule exI [of _ query])
    apply (rule exI [of _ rest])
    apply (intro conjI)
       apply (rule one(1))
      apply (rule one(2))
     apply (rule one(3))
    apply (rule one(4))
    done
qed

text \<open>
  C4.  For every machine envelope, membership list and token segment, \<open>Create\<close> builds
  exactly one request, a POST to \<open>/machines\<close> whose body is the creation segment made of
  the given machine, the given memberships in their order and a one-element token list
  holding the given token segment; if the request could be built it is executed once,
  and nothing else is sent.
\<close>

theorem MachinesClient_Create_segment:
  fixes m :: "(('u, 'k) MachineCreationSegment, 'q, 'resp, 'x) Client"
  shows
  "\<exists>segment rest.
      snd (MachinesClient_Create m machine memberships (Some token)) =
        NewRequestCall ''POST'' ''/machines'' None (Some segment) # rest
    \<and> segment = \<lparr>Machine = machine, Memberships = memberships, Tokens = [token]\<rparr>
    \<and> Machine segment = machine
    \<and> Memberships segment = memberships
    \<and> length (Tokens segment) = 1
    \<and> Tokens segment ! 0 = token
    \<and> rest = (case NewRequest m ''POST'' ''/machines'' None (Some segment) of
                Inl err \<Rightarrow> [] | Inr req \<Rightarrow> [DoCall req])
    \<and> executions (snd (MachinesClient_Create m machine memberships (Some token))) \<le> 1"
  by (simp add: MachinesClient_Create_def executions_def Let_def split: sum.splits)

theorem MachinesClient_Create_segment_witness:
  "snd (MachinesClient_Create
      (\<lparr>NewRequest = (\<lambda>method path query body. Inr (method, path, body)),
        Do = (\<lambda>req. Inr ''created'')\<rparr>
         :: ((string, nat) MachineCreationSegment, string \<times> string \<times> (string, nat) MachineCreationSegment option,
             string, unit) Client)
      (Some ''machine'') [''member1'', ''member2'']
      (Some \<lparr>Token = Some ''token'', Keypairs = [1, 2]\<rparr>))
   = [NewRequestCall ''POST'' ''/machines'' None
        (Some \<lparr>Machine = Some ''machine'', Memberships = [''member1'', ''member2''],
               Tokens = [\<lparr>Token = Some ''token'', Keypairs = [1, 2]\<rparr>]\<rparr>),
      DoCall (''POST'', ''/machines'',
        Some \<lparr>Machine = Some ''machine'', Memberships = [''member1'', ''member2''],
               Tokens = [\<lparr>Token = Some ''token'', Keypairs = [1, 2]\<rparr>]\<rparr>)]"
  using MachinesClient_Create_segment [of
      "\<lparr>NewRequest = (\<lambda>method path query body. Inr (method, path, body)),
        Do = (\<lambda>req. Inr ''created'')\<rparr>
         :: ((string, nat) MachineCreationSegment, string \<times> string \<times> (string, nat) MachineCreationSegment option,
             string, unit) Client"
      "Some ''machine''" "[''member1'', ''member2'']" "\<lparr>Token = Some ''token'', Keypairs = [1, 2]\<rparr>"]
  by auto

text \<open>
  C5.  No registry call is retried.  Each of \<open>CredentialTreeClient.Post\<close>,
  \<open>CredentialTreeClient.List\<close>, \<open>MachinesClient.Create\<close> and \<open>MachinesClient.Get\<close>
  executes at most one request per invocation, and when that execution fails the
  function returns the error of the execution to its caller, having executed the
  request once.
\<close>

theorem registry_calls_not_retried:
  fixes ct :: "('s CredentialTree, 'q, 'resp, 'x) Client"
    and cl :: "('body, 'q, 'resp, 'x) Client"
    and mc :: "(('u, 'k) MachineCreationSegment, 'q, 'resp, 'x) Client"
    and mg :: "('body, 'q, 'resp, 'x) Client"
  shows
  "executions (snd (CredentialTreeClient_Post ct t)) \<le> 1
   \<and> (\<forall>req err. NewRequest ct ''POST'' ''/credentialtree'' None t = Inr req \<and> Do ct req = Inl err \<longrightarrow>
         CredentialTreeClient_Post ct t =
           (Inl err, [NewRequestCall ''POST'' ''/credentialtree'' None t, DoCall req]))
   \<and> executions (snd (CredentialTreeClient_List cl pathExpString idString name path pathExp ownerID)) \<le> 1
   \<and> (\<forall>query req err. \<not> (path \<noteq> [] \<and> pathExp \<noteq> None) \<and>
         query = List_query pathExpString idString name path pathExp ownerID \<and>
         NewRequest cl ''GET'' ''/credentialtree'' (Some query) None = Inr req \<and> Do cl req = Inl err \<longrightarrow>
         CredentialTreeClient_List cl pathExpString idString name path pathExp ownerID =
           (Inl err, [NewRequestCall ''GET'' ''/credentialtree'' (Some query) None, DoCall req]))
   \<and> executions (snd (MachinesClient_Create mc machine memberships token)) \<le> 1
   \<and> (\<forall>tok segment req err. token = Some tok \<and>
         segment = \<lparr>Machine = machine, Memberships = memberships, Tokens = [tok]\<rparr> \<and>
         NewRequest mc ''POST'' ''/machines'' None (Some segment) = Inr req \<and> Do mc req = Inl err \<longrightarrow>
         MachinesClient_Create mc machine memberships token =
           (Return (Inl err), [NewRequestCall ''POST'' ''/machines'' None (Some segment), DoCall req]))
   \<and> executions (snd (MachinesClient_Get mg idString machineID)) \<le> 1
   \<and> (\<forall>ident req err. machineID = Some ident \<and>
         NewRequest mg ''GET'' (''/machines/'' @ idString ident) None None = Inr req \<and> Do mg req = Inl err \<longrightarrow>
         MachinesClient_Get mg idString machineID =
           (Return (Inl err),
            [NewRequestCall ''GET'' (''/machines/'' @ idString ident) None None, DoCall req]))"
proof -
  have post: "executions (snd (CredentialTreeClient_Post ct t)) \<le> 1"
    by (simp add: CredentialTreeClient_Post_def executions_def split: sum.splits)
  have post_fail: "\<forall>req err. NewRequest ct ''POST'' ''/credentialtree'' None t = Inr req \<and> Do ct req = Inl err \<longrightarrow>
         CredentialTreeClient_Post ct t =
           (Inl err, [NewRequestCall ''POST'' ''/credentialtree'' None t, DoCall req])"
    by (simp add: CredentialTreeClient_Post_def)
  have list: "executions (snd (CredentialTreeClient_List cl pathExpString idString name path pathExp ownerID)) \<le> 1"
    by (simp add: CredentialTreeClient_List_def executions_def Let_def split: sum.splits)
  have list_fail: "\<forall>query req err. \<not> (path \<noteq> [] \<and> pathExp \<noteq> None) \<and>
         query = List_query pathExpString idString name path pathExp ownerID \<and>
         NewRequest cl ''GET'' ''/credentialtree'' (Some query) None = Inr req \<and> Do cl req = Inl err \<longrightarrow>
         CredentialTreeClient_List cl pathExpString idString name path pathExp ownerID =
           (Inl err, [NewRequestCall ''GET'' ''/credentialtree'' (Some query) None, DoCall req])"
    by (auto simp: CredentialTreeClient_List_def Let_def)
  have create: "executions (snd (MachinesClient_Create mc machine memberships token)) \<le> 1"
    by (simp add: MachinesClient_Create_def executions_def Let_def split: sum.splits option.splits)
  have create_fail: "\<forall>tok segment req err. token = Some tok \<and>
         segment = \<lparr>Machine = machine, Memberships = memberships, Tokens = [tok]\<rparr> \<and>
         NewRequest mc ''POST'' ''/machines'' None (Some segment) = Inr req \<and> Do mc req = Inl err \<longrightarrow>
         MachinesClient_Create mc machine memberships token =
           (Return (Inl err), [NewRequestCall ''POST'' ''/machines'' None (Some segment), DoCall req])"
    by (auto simp: MachinesClient_Create_def Let_def)
  have get: "executions (snd (MachinesClient_Get mg idString machineID)) \<le> 1"
    by (simp add: MachinesClient_Get_def executions_def split: sum.splits option.splits)
  have get_fail: "\<forall>ident req err. machineID = Some ident \<and>
         NewRequest mg ''GET'' (''/machines/'' @ idString ident) None None = Inr req \<and> Do mg req = Inl err \<longrightarrow>
         MachinesClient_Get mg idString machineID =
           (Return (Inl err),
            [NewRequestCall ''GET'' (''/machines/'' @ idString ident) None None, DoCall req])"
    by (auto simp: MachinesClient_Get_def)
  from post post_fail list list_fail create create_fail get get_fail show ?thesis
    by (intro conjI)
qed

theorem registry_calls_not_retried_witness:
  "CredentialTreeClient_Post
       (\<lparr>NewRequest = (\<lambda>method path query body. Inr path), Do = (\<lambda>req. Inl (ErrorString ''timeout''))\<rparr>
          :: (nat CredentialTree, string, unit, unit) Client)
       (Some \<lparr>Keyring = Some 1, Members = [2], Credentials = [3]\<rparr>)
     = (Inl (ErrorString ''timeout''),
        [NewRequestCall ''POST'' ''/credentialtree'' None
           (Some \<lparr>Keyring = Some 1, Members = [2], Credentials = [3]\<rparr>),
         DoCall ''/credentialtree''])
   \<and> fst (CredentialTreeClient_List
       (\<lparr>NewRequest = (\<lambda>method path query body. Inr path), Do = (\<lambda>req. Inl (ErrorString ''timeout''))\<rparr>
          :: (unit, string, unit, unit) Client)
       (\<lambda>pe. pe) (\<lambda>ident. ident) ''API_KEY'' [] (Some ''/acme/*'') (None :: string option))
     = Inl (ErrorString ''timeout'')
   \<and> executions (snd (CredentialTreeClient_List
       (\<lparr>NewRequest = (\<lambda>method path query body. Inr path), Do = (\<lambda>req. Inl (ErrorString ''timeout''))\<rparr>
          :: (unit, string, unit, unit) Client)
       (\<lambda>pe. pe) (\<lambda>ident. ident) ''API_KEY'' [] (Some ''/acme/*'') (None :: string option))) = 1
   \<and> MachinesClient_Create
       (\<lparr>NewRequest = (\<lambda>method path query body. Inr path), Do = (\<lambda>req. Inl (ErrorString ''timeout''))\<rparr>
          :: ((string, nat) MachineCreationSegment, string, unit, unit) Client)
       (Some ''machine'') [''member''] (Some \<lparr>Token = Some ''token'', Keypairs = [1]\<rparr>)
     = (Return (Inl (ErrorString ''timeout'')),
        [NewRequestCall ''POST'' ''/machines'' None
           (Some \<lparr>Machine = Some ''machine'', Memberships = [''member''],
                  Tokens = [\<lparr>Token = Some ''token'', Keypairs = [1]\<rparr>]\<rparr>),
         DoCall ''/machines''])
   \<and> MachinesClient_Get
       (\<lparr>NewRequest = (\<lambda>method path query body. Inr path), Do = (\<lambda>req. Inl (ErrorString ''timeout''))\<rparr>
          :: (unit, string, unit, unit) Client)
       (\<lambda>ident. ident) (Some ''m1'')
     = (Return (Inl (ErrorString ''timeout'')),
        [NewRequestCall ''GET'' ''/machines/m1'' None None, DoCall ''/machines/m1''])"
  using registry_calls_not_retried [where
      ct = "\<lparr>NewRequest = (\<lambda>method path query body. Inr path), Do = (\<lambda>req. Inl (ErrorString ''timeout''))\<rparr>
          :: (nat CredentialTree, string, unit, unit) Client"
      and t = "Some \<lparr>Keyring = Some 1, Members = [2], Credentials = [3]\<rparr>"
      and cl = "\<lparr>NewRequest = (\<lambda>method path query body. Inr path), Do = (\<lambda>req. Inl (ErrorString ''timeout''))\<rparr>
          :: (unit, string, unit, unit) Client"
      and pathExpString = "\<lambda>pe. pe" and idString = "\<lambda>ident. ident" and name = "''API_KEY''" and path = "[]"
      and pathExp = "Some ''/acme/*''" and ownerID = "None :: string option"
      and mc = "\<lparr>NewRequest = (\<lambda>method path query body. Inr path), Do = (\<lambda>req. Inl (ErrorString ''timeout''))\<rparr>
          :: ((string, nat) MachineCreationSegment, string, unit, unit) Client"
      and machine = "Some ''machine''" and memberships = "[''member'']"
      and token = "Some \<lparr>Token = Some ''token'', Keypairs = [1]\<rparr>"
      and mg = "\<lparr>NewRequest = (\<lambda>method path query body. Inr path), Do = (\<lambda>req. Inl (ErrorString ''timeout''))\<rparr>
          :: (unit, string, unit, unit) Client"
      and machineID = "Some ''m1''"]
  by (simp add: executions_def)

section \<open>Properties of the commands\<close>

text \<open>
  C3.  Local validation is to be done before any registry round-trip.  In
  \<open>createProjectByName\<close> the call of \<open>client.Projects.Create\<close> is made first and the
  test of \<open>orgID\<close> only afterwards: with a nil \<open>orgID\<close> the function returns the
  error "Org not found" after the project-create call has been issued with that nil
  \<open>orgID\<close>, whatever the registry answered.
\<close>

theorem createProjectByName_nil_org_calls_registry:
  "createProjectByName ProjectsCreate errorString None name =
     (Inl (ExitError ''Org not found''), [ProjectsCreateCall None name])"
  by (simp add: createProjectByName_def)

text \<open>
  C10.  For a machine session \<open>profileEdit\<close> fails with "Machines do not have profiles"
  before any prompt or update.  For any other session, every delta sent to
  \<open>Users.Update\<close> has its email field set only if the entered email differs from the
  current one (and then to the entered email) and its name field set only if the
  entered name differs from the current one (and then to the entered name); when
  neither differs, \<open>profileEdit\<close> returns success and no update is sent.
\<close>

theorem profileEdit_sends_only_changes:
  assumes "LoadConfig env = Inr cfg" and "SessionWho env 0 = Inr session"
  shows
  "(Session_Type session = ''machine'' \<longrightarrow>
      fst (profileEdit env) = Some (ExitError ''Machines do not have profiles'')
      \<and> (\<forall>event \<in> set (snd (profileEdit env)). \<not> isPromptOrUpdate event))
   \<and> (\<forall>name email.
        Session_Type session \<noteq> ''machine''
        \<and> FullNamePrompt env (Session_Name session) = Inr name
        \<and> EmailPrompt env (Session_Email session) = Inr email \<longrightarrow>
        (\<forall>delta. UsersUpdateCall delta \<in> set (snd (profileEdit env)) \<longrightarrow>
            (ProfileUpdate_Email delta \<noteq> [] \<longrightarrow> email \<noteq> Session_Email session)
          \<and> (ProfileUpdate_Name delta \<noteq> [] \<longrightarrow> name \<noteq> Session_Name session)
          \<and> ProfileUpdate_Email delta = (if email \<noteq> Session_Email session then email else [])
          \<and> ProfileUpdate_Name delta = (if name \<noteq> Session_Name session then name else [])
          \<and> ProfileUpdate_Password delta = [])
        \<and> (email = Session_Email session \<and> name = Session_Name session \<longrightarrow>
            fst (profileEdit env) = None
            \<and> (\<forall>event \<in> set (snd (profileEdit env)). \<not> isUsersUpdate event)))"
proof (intro conjI impI allI)
  assume "Session_Type session = ''machine''"
  with assms show "fst (profileEdit env) = Some (ExitError ''Machines do not have profiles'')"
    by (simp add: profileEdit_def MachineSession_def)
next
  assume "Session_Type session = ''machine''"
  with assms show "\<forall>event \<in> set (snd (profileEdit env)). \<not> isPromptOrUpdate event"
    by (simp add: profileEdit_def MachineSession_def)
next
  fix name email delta
  assume user: "Session_Type session \<noteq> ''machine''
        \<and> FullNamePrompt env (Session_Name session) = Inr name
        \<and> EmailPrompt env (Session_Email session) = Inr email"
    and sent: "UsersUpdateCall delta \<in> set (snd (profileEdit env))"
  from assms user sent have delta:
    "delta = \<lparr>ProfileUpdate_Name = (if name \<noteq> Session_Name session then name else []),
              ProfileUpdate_Email = (if email \<noteq> Session_Email session then email else []),
              ProfileUpdate_Password = []\<rparr>"
    by (auto simp: profileEdit_def MachineSession_def Let_def split: if_splits option.splits sum.splits)
  show "ProfileUpdate_Email delta = (if email \<noteq> Session_Email session then email else [])"
    by (simp add: delta)
  show "ProfileUpdate_Name delta = (if name \<noteq> Session_Name session then name else [])"
    by (simp add: delta)
  show "ProfileUpdate_Password delta = []"
    by (simp add: delta)
  {
    assume "ProfileUpdate_Email delta \<noteq> []"
    then show "email \<noteq> Session_Email session"
      by (simp add: delta split: if_splits)
  }
  {
    assume "ProfileUpdate_Name delta \<noteq> []"
    then show "name \<noteq> Session_Name session"
      by (simp add: delta split: if_splits)
  }
next
  fix name email
  assume user: "Session_Type session \<noteq> ''machine''
        \<and> FullNamePrompt env (Session_Name session) = Inr name
        \<and> EmailPrompt env (Session_Email session) = Inr email"
    and same: "email = Session_Email session \<and> name = Session_Name session"
  from assms user same show "fst (profileEdit env) = None"
    by (simp add: profileEdit_def MachineSession_def Let_def)
  from assms user same show "\<forall>event \<in> set (snd (profileEdit env)). \<not> isUsersUpdate event"
    by (simp add: profileEdit_def MachineSession_def Let_def)
qed

theorem profileEdit_sends_only_changes_witness:
  "fst (profileEdit
      (\<lparr>LoadConfig = Inr (),
        SessionWho = (\<lambda>n. Inr \<lparr>Session_Type = ''machine'', Session_Name = ''ci'',
                                  Session_Email = [], Session_Username = ''ci''\<rparr>),
        FullNamePrompt = (\<lambda>og. Inr ''Ann''),
        EmailPrompt = (\<lambda>og. Inr ''ann@new.example''),
        ConfirmDialogue = (\<lambda>warning. None),
        UsersUpdate = (\<lambda>delta. None)\<rparr> :: (unit, unit) ProfileEnv))
     = Some (ExitError ''Machines do not have profiles'')
   \<and> (\<exists>delta. UsersUpdateCall delta \<in> set (snd (profileEdit
      (\<lparr>LoadConfig = Inr (),
        SessionWho = (\<lambda>n. Inr \<lparr>Session_Type = ''user'', Session_Name = ''Ann'',
                                  Session_Email = ''ann@old.example'', Session_Username = ''ann''\<rparr>),
        FullNamePrompt = (\<lambda>og. Inr ''Ann''),
        EmailPrompt = (\<lambda>og. Inr ''ann@new.example''),
        ConfirmDialogue = (\<lambda>warning. None),
        UsersUpdate = (\<lambda>delta. None)\<rparr> :: (unit, unit) ProfileEnv)))
        \<and> ProfileUpdate_Email delta = ''ann@new.example'' \<and> ProfileUpdate_Name delta = [])
   \<and> fst (profileEdit
      (\<lparr>LoadConfig = Inr (),
        SessionWho = (\<lambda>n. Inr \<lparr>Session_Type = ''user'', Session_Name = ''Ann'',
                                  Session_Email = ''ann@old.example'', Session_Username = ''ann''\<rparr>),
        FullNamePrompt = (\<lambda>og. Inr og),
        EmailPrompt = (\<lambda>og. Inr og),
        ConfirmDialogue = (\<lambda>warning. None),
        UsersUpdate = (\<lambda>delta. None)\<rparr> :: (unit, unit) ProfileEnv))
     = None"
proof -
  let ?machine = "\<lparr>LoadConfig = Inr (),
        SessionWho = (\<lambda>n. Inr \<lparr>Session_Type = ''machine'', Session_Name = ''ci'',
                                  Session_Email = [], Session_Username = ''ci''\<rparr>),
        FullNamePrompt = (\<lambda>og. Inr ''Ann''),
        EmailPrompt = (\<lambda>og. Inr ''ann@new.example''),
        ConfirmDialogue = (\<lambda>warning. None),
        UsersUpdate = (\<lambda>delta. None)\<rparr> :: (unit, unit) ProfileEnv"
  let ?changed = "\<lparr>LoadConfig = Inr (),
        SessionWho = (\<lambda>n. Inr \<lparr>Session_Type = ''user'', Session_Name = ''Ann'',
                                  Session_Email = ''ann@old.example'', Session_Username = ''ann''\<rparr>),
        FullNamePrompt = (\<lambda>og. Inr ''Ann''),
        EmailPrompt = (\<lambda>og. Inr ''ann@new.example''),
        ConfirmDialogue = (\<lambda>warning. None),
        UsersUpdate = (\<lambda>delta. None)\<rparr> :: (unit, unit) ProfileEnv"
  let ?same = "\<lparr>LoadConfig = Inr (),
        SessionWho = (\<lambda>n. Inr \<lparr>Session_Type = ''user'', Session_Name = ''Ann'',
                                  Session_Email = ''ann@old.example'', Session_Username = ''ann''\<rparr>),
        FullNamePrompt = (\<lambda>og. Inr og),
        EmailPrompt = (\<lambda>og. Inr og),
        ConfirmDialogue = (\<lambda>warning. None),
        UsersUpdate = (\<lambda>delta. None)\<rparr> :: (unit, unit) ProfileEnv"
  have machine: "fst (profileEdit ?machine) = Some (ExitError ''Machines do not have profiles'')"
    using profileEdit_sends_only_changes [of ?machine "()"
        "\<lparr>Session_Type = ''machine'', Session_Name = ''ci'', Session_Email = [], Session_Username = ''ci''\<rparr>"]
    by simp
  have only: "\<forall>delta. UsersUpdateCall delta \<in> set (snd (profileEdit ?changed)) \<longrightarrow>
      ProfileUpdate_Email delta = ''ann@new.example'' \<and> ProfileUpdate_Name delta = []"
    using profileEdit_sends_only_changes [of ?changed "()"
        "\<lparr>Session_Type = ''user'', Session_Name = ''Ann'', Session_Email = ''ann@old.example'',
          Session_Username = ''ann''\<rparr>"]
    by simp
  have "\<exists>delta. UsersUpdateCall delta \<in> set (snd (profileEdit ?changed))"
    by (simp add: profileEdit_def MachineSession_def Let_def)
  with only have changed: "\<exists>delta. UsersUpdateCall delta \<in> set (snd (profileEdit ?changed))
      \<and> ProfileUpdate_Email delta = ''ann@new.example'' \<and> ProfileUpdate_Name delta = []"
    by blast
  have same: "fst (profileEdit ?same) = None"
    using profileEdit_sends_only_changes [of ?same "()"
        "\<lparr>Session_Type = ''user'', Session_Name = ''Ann'', Session_Email = ''ann@old.example'',
          Session_Username = ''ann''\<rparr>"]
    by simp
  from machine changed same show ?thesis
    by (intro conjI)
qed

lemma profileEdit_update_example:
  "snd (profileEdit
      (\<lparr>LoadConfig = Inr (),
        SessionWho = (\<lambda>n. Inr \<lparr>Session_Type = ''user'', Session_Name = ''Ann'',
                                  Session_Email = ''ann@old.example'', Session_Username = ''ann''\<rparr>),
        FullNamePrompt = (\<lambda>og. Inr ''Ann''),
        EmailPrompt = (\<lambda>og. Inr ''ann@new.example''),
        ConfirmDialogue = (\<lambda>warning. None),
        UsersUpdate = (\<lambda>delta. None)\<rparr> :: (unit, unit) ProfileEnv)) ! 5
   = UsersUpdateCall \<lparr>ProfileUpdate_Name = [], ProfileUpdate_Email = ''ann@new.example'',
                        ProfileUpdate_Password = []\<rparr>"
  by (simp add: profileEdit_def MachineSession_def Let_def)

lemma set_execute_rejects_before_create:
  "length params < 2 \<Longrightarrow>
     set_execute cValue_create harvest credentials_create session params =
       (Rejected (NewError ''You must provide two parameters''), [])"
  by (simp add: set_execute_def)

lemma List_rejects_before_request:
  "path \<noteq> [] \<Longrightarrow> pathExp \<noteq> None \<Longrightarrow>
     snd (CredentialTreeClient_List c pathExpString idString name path pathExp ownerID) = []"
  by (simp add: CredentialTreeClient_List_def)

section \<open>Properties of wrap\<close>



lemma wrap_throwing_getter:
  "wrap (Normal (JObj [(''then'', GetterThrows (NewError ''no''))])) = Thrown (NewError ''no'')"
  by (simp add: wrap_def)




end
